theory Spec2Isabelle
  imports Main "HOL-Library.Word"
begin

section \<open>Keyboard shortcuts of the mail application (apps/mail/config/shortcuts.ts)\<close>

subsection \<open>JavaScript strings\<close>

text \<open>
  A JavaScript string is a sequence of UTF-16 code units; \<open>.length\<close> counts code units
  and \<open>===\<close> compares the sequences. String literals of the source that are plain ASCII
  are written \<open>js ''...''\<close>; the five glyphs of the source are single code units of the
  Basic Multilingual Plane and are written as their code.
\<close>

type_synonym js_string = "16 word list"

definition js :: "string \<Rightarrow> js_string" where
  "js s = map of_char s"

definition glyph_command :: js_string where
  "glyph_command = [0x2318]"

definition glyph_option :: js_string where
  "glyph_option = [0x2325]"

definition glyph_shift :: js_string where
  "glyph_shift = [0x21E7]"

definition glyph_backspace :: js_string where
  "glyph_backspace = [0x232B]"

definition glyph_enter :: js_string where
  "glyph_enter = [0x21B5]"

text \<open>
  \<open>String.prototype.includes\<close>: the argument occurs somewhere in the receiver.
\<close>

fun string_includes :: "js_string \<Rightarrow> js_string \<Rightarrow> bool" where
  "string_includes [] t = (t = [])"
| "string_includes (c # cs) t = (take (length t) (c # cs) = t \<or> string_includes cs t)"

text \<open>
  \<open>toLowerCase\<close> and \<open>toUpperCase\<close> follow the Unicode case mappings of the runtime.
  On a string of ASCII code units they exchange \<open>A..Z\<close> and \<open>a..z\<close> and leave every other
  code unit alone, which is written out here; on a string with a code unit beyond ASCII
  the result is whatever the runtime's Unicode tables give (it may even differ in length),
  and these tables are parameters \<open>unicode_lower\<close> and \<open>unicode_upper\<close> of the environment.
\<close>

definition is_ascii :: "16 word \<Rightarrow> bool" where
  "is_ascii c = (c < 0x80)"

definition ascii_lower :: "16 word \<Rightarrow> 16 word" where
  "ascii_lower c = (if 0x41 \<le> c \<and> c \<le> 0x5A then c + 0x20 else c)"

definition ascii_upper :: "16 word \<Rightarrow> 16 word" where
  "ascii_upper c = (if 0x61 \<le> c \<and> c \<le> 0x7A then c - 0x20 else c)"

subsection \<open>Data model\<close>

datatype ShortcutType = Single | Combination

record Shortcut =
  keys :: "js_string list"
  action :: js_string
  type :: ShortcutType
  description :: js_string
  scope :: js_string
  preventDefault :: "bool option"
  ignore :: "bool option"

text \<open>
  \<open>EnhancedShortcut extends Shortcut\<close> with two fields that the interface declares
  optional.
\<close>

record EnhancedShortcut = Shortcut +
  mappedKeys :: "js_string list option"
  displayKeys :: "js_string list option"

subsection \<open>The environment: platform, layout mapper and code lookup\<close>

text \<open>
  The module imports \<open>keyboardLayoutMapper\<close> and \<open>getKeyCodeFromKey\<close> and reads
  \<open>navigator.platform\<close>. They are parameters of the model. A call of an imported
  function either returns a value of its type or throws; the type \<open>'c\<close> is the type
  of key codes.
\<close>

datatype 'a outcome = Throws | Returns 'a

record layout_info =
  layout :: js_string

record 'c env =
  navigator_platform :: js_string
  unicode_lower :: "js_string \<Rightarrow> js_string"
  unicode_upper :: "js_string \<Rightarrow> js_string"
  getDetectedLayout :: "layout_info option outcome"
  getKeyForCode :: "'c \<Rightarrow> js_string outcome"
  mapKeys :: "'c list \<Rightarrow> js_string list outcome"
  getKeyCodeFromKey :: "js_string \<Rightarrow> 'c outcome"

definition toLowerCase :: "'c env \<Rightarrow> js_string \<Rightarrow> js_string" where
  "toLowerCase e s = (if list_all is_ascii s then map ascii_lower s else unicode_lower e s)"

definition toUpperCase :: "'c env \<Rightarrow> js_string \<Rightarrow> js_string" where
  "toUpperCase e s = (if list_all is_ascii s then map ascii_upper s else unicode_upper e s)"

text \<open>An exception of an imported function leaves the calling function at once.\<close>

datatype error =
  DetectedLayoutThrew | KeyCodeFromKeyThrew | KeyForCodeThrew | MapKeysThrew

text \<open>
  \<open>Array.prototype.map\<close> with a callback that may throw: the callback runs on the
  elements from left to right, and the first exception ends the whole call.
\<close>

fun array_map :: "('a \<Rightarrow> error + 'b) \<Rightarrow> 'a list \<Rightarrow> error + 'b list" where
  "array_map f [] = Inr []"
| "array_map f (x # xs) =
     (case f x of
        Inl err \<Rightarrow> Inl err
      | Inr y \<Rightarrow> (case array_map f xs of Inl err \<Rightarrow> Inl err | Inr ys \<Rightarrow> Inr (y # ys)))"

subsection \<open>getDisplayKeysForShortcut\<close>

text \<open>
  \<open>displayKey\<close> is the arrow function that \<open>getDisplayKeysForShortcut\<close> maps over
  \<open>shortcut.keys\<close>: the \<open>switch\<close> on \<open>key.toLowerCase()\<close>, whose \<open>default\<close> case
  consults the layout mapper when \<open>detectedLayout?.layout\<close> is truthy (the layout was
  detected and its identifier is not the empty string) and differs from \<open>'qwerty'\<close>.
\<close>

definition displayKey :: "'c env \<Rightarrow> layout_info option \<Rightarrow> js_string \<Rightarrow> error + js_string" where
  "displayKey e detectedLayout key =
     (let k = toLowerCase e key in
      if k = js ''mod'' then
        Inr (if string_includes (navigator_platform e) (js ''Mac'') then glyph_command else js ''Ctrl'')
      else if k = js ''meta'' then Inr glyph_command
      else if k = js ''ctrl'' \<or> k = js ''control'' then Inr (js ''Ctrl'')
      else if k = js ''alt'' then
        Inr (if string_includes (navigator_platform e) (js ''Mac'') then glyph_option else js ''Alt'')
      else if k = js ''shift'' then Inr glyph_shift
      else if k = js ''escape'' then Inr (js ''Esc'')
      else if k = js ''backspace'' then Inr glyph_backspace
      else if k = js ''enter'' then Inr glyph_enter
      else if k = js ''space'' then Inr (js ''Space'')
      else if (case detectedLayout of
                 None \<Rightarrow> False
               | Some info \<Rightarrow> layout info \<noteq> [] \<and> layout info \<noteq> js ''qwerty'') then
        (case getKeyCodeFromKey e key of
           Throws \<Rightarrow> Inl KeyCodeFromKeyThrew
         | Returns keyCode \<Rightarrow>
             (case getKeyForCode e keyCode of
                Throws \<Rightarrow> Inl KeyForCodeThrew
              | Returns mappedKey \<Rightarrow>
                  Inr (if length mappedKey = 1 then toUpperCase e mappedKey else mappedKey)))
      else Inr (if length key = 1 then toUpperCase e key else key))"

definition getDisplayKeysForShortcut :: "'c env \<Rightarrow> Shortcut \<Rightarrow> error + js_string list" where
  "getDisplayKeysForShortcut e shortcut =
     (case getDetectedLayout e of
        Throws \<Rightarrow> Inl DetectedLayoutThrew
      | Returns detectedLayout \<Rightarrow> array_map (displayKey e detectedLayout) (keys shortcut))"

subsection \<open>enhanceShortcutsWithMapping\<close>

text \<open>
  \<open>enhanceShortcut\<close> is the arrow function mapped over the shortcuts. The object
  literal copies the fields of the shortcut, then evaluates \<open>displayKeys\<close>, then
  \<open>mappedKeys\<close>, whose argument \<open>shortcut.keys.map(getKeyCodeFromKey)\<close> is evaluated
  before \<open>mapKeys\<close> is called. \<open>getKeyCodeFromKey\<close> is a function of the key name
  alone; \<open>keyCodeOf\<close> is its call inside the array map, where an exception becomes the
  error value.
\<close>

definition keyCodeOf :: "'c env \<Rightarrow> js_string \<Rightarrow> error + 'c" where
  "keyCodeOf e key =
     (case getKeyCodeFromKey e key of Throws \<Rightarrow> Inl KeyCodeFromKeyThrew | Returns c \<Rightarrow> Inr c)"

definition enhanceShortcut :: "'c env \<Rightarrow> Shortcut \<Rightarrow> error + EnhancedShortcut" where
  "enhanceShortcut e shortcut =
     (case getDisplayKeysForShortcut e shortcut of
        Inl err \<Rightarrow> Inl err
      | Inr dks \<Rightarrow>
          (case array_map (keyCodeOf e) (keys shortcut) of
             Inl err \<Rightarrow> Inl err
           | Inr codes \<Rightarrow>
               (case mapKeys e codes of
                  Throws \<Rightarrow> Inl MapKeysThrew
                | Returns mks \<Rightarrow>
                    Inr \<lparr>keys = keys shortcut, action = action shortcut, type = type shortcut,
                         description = description shortcut, scope = scope shortcut,
                         preventDefault = preventDefault shortcut, ignore = ignore shortcut,
                         mappedKeys = Some mks, displayKeys = Some dks\<rparr>)))"

definition enhanceShortcutsWithMapping :: "'c env \<Rightarrow> Shortcut list \<Rightarrow> error + EnhancedShortcut list" where
  "enhanceShortcutsWithMapping e shortcuts = array_map (enhanceShortcut e) shortcuts"

subsection \<open>The registry\<close>

definition threadDisplayShortcuts :: "Shortcut list" where
  "threadDisplayShortcuts =
    [\<lparr>keys = [js ''r''], action = js ''reply'', type = Single,
      description = js ''Reply to email'', scope = js ''thread-display'',
      preventDefault = None, ignore = None\<rparr>,
     \<lparr>keys = [js ''a''], action = js ''replyAll'', type = Single,
      description = js ''Reply all'', scope = js ''thread-display'',
      preventDefault = None, ignore = None\<rparr>,
     \<lparr>keys = [js ''f''], action = js ''forward'', type = Single,
      description = js ''Forward email'', scope = js ''thread-display'',
      preventDefault = None, ignore = None\<rparr>,
     \<lparr>keys = [js ''meta'', js ''backspace''], action = js ''delete'', type = Single,
      description = js ''Move to Bin'', scope = js ''thread-display'',
      preventDefault = None, ignore = None\<rparr>]"

definition navigation :: "Shortcut list" where
  "navigation =
    [\<lparr>keys = [js ''g'', js ''d''], action = js ''goToDrafts'', type = Combination,
      description = js ''Go to drafts'', scope = js ''navigation'',
      preventDefault = None, ignore = None\<rparr>,
     \<lparr>keys = [js ''g'', js ''i''], action = js ''inbox'', type = Combination,
      description = js ''Go to inbox'', scope = js ''navigation'',
      preventDefault = None, ignore = None\<rparr>,
     \<lparr>keys = [js ''g'', js ''t''], action = js ''sentMail'', type = Combination,
      description = js ''Go to sent mail'', scope = js ''navigation'',
      preventDefault = None, ignore = None\<rparr>,
     \<lparr>keys = [js ''g'', js ''s''], action = js ''goToSettings'', type = Combination,
      description = js ''Go to general settings'', scope = js ''navigation'',
      preventDefault = None, ignore = None\<rparr>,
     \<lparr>keys = [js ''g'', js ''a''], action = js ''goToArchive'', type = Combination,
      description = js ''Go to archive'', scope = js ''navigation'',
      preventDefault = None, ignore = None\<rparr>,
     \<lparr>keys = [js ''g'', js ''b''], action = js ''goToBin'', type = Combination,
      description = js ''Go to bin'', scope = js ''navigation'',
      preventDefault = None, ignore = None\<rparr>,
     \<lparr>keys = [js ''?'', js ''shift''], action = js ''helpWithShortcuts'', type = Combination,
      description = js ''Show keyboard shortcuts'', scope = js ''navigation'',
      preventDefault = None, ignore = None\<rparr>]"

definition globalShortcuts :: "Shortcut list" where
  "globalShortcuts =
    [\<lparr>keys = [js ''mod'', js ''z''], action = js ''undoLastAction'', type = Single,
      description = js ''Undo last action'', scope = js ''global'',
      preventDefault = Some True, ignore = None\<rparr>,
     \<lparr>keys = [js ''v''], action = js ''openVoice'', type = Single,
      description = js ''Open voice'', scope = js ''global'',
      preventDefault = None, ignore = None\<rparr>,
     \<lparr>keys = [js ''c''], action = js ''newEmail'', type = Single,
      description = js ''Compose new email'', scope = js ''global'',
      preventDefault = Some True, ignore = None\<rparr>,
     \<lparr>keys = [js ''mod'', js ''k''], action = js ''commandPalette'', type = Combination,
      description = js ''Open command palette'', scope = js ''global'',
      preventDefault = None, ignore = None\<rparr>,
     \<lparr>keys = [js ''mod'', js ''shift'', js ''f''], action = js ''clearAllFilters'', type = Combination,
      description = js ''Clear all filters'', scope = js ''global'',
      preventDefault = Some True, ignore = None\<rparr>]"

definition mailListShortcuts :: "Shortcut list" where
  "mailListShortcuts =
    [\<lparr>keys = [js ''r''], action = js ''markAsRead'', type = Single,
      description = js ''Mark as read'', scope = js ''mail-list'',
      preventDefault = None, ignore = None\<rparr>,
     \<lparr>keys = [js ''u''], action = js ''markAsUnread'', type = Single,
      description = js ''Mark as unread'', scope = js ''mail-list'',
      preventDefault = None, ignore = None\<rparr>,
     \<lparr>keys = [js ''i''], action = js ''markAsImportant'', type = Single,
      description = js ''Mark as important'', scope = js ''mail-list'',
      preventDefault = None, ignore = None\<rparr>,
     \<lparr>keys = [js ''a''], action = js ''bulkArchive'', type = Single,
      description = js ''Bulk archive'', scope = js ''mail-list'',
      preventDefault = None, ignore = None\<rparr>,
     \<lparr>keys = [js ''d''], action = js ''bulkDelete'', type = Single,
      description = js ''Bulk delete'', scope = js ''mail-list'',
      preventDefault = None, ignore = None\<rparr>,
     \<lparr>keys = [js ''s''], action = js ''bulkStar'', type = Single,
      description = js ''Bulk star'', scope = js ''mail-list'',
      preventDefault = None, ignore = None\<rparr>,
     \<lparr>keys = [js ''e''], action = js ''archiveEmail'', type = Single,
      description = js ''Archive email'', scope = js ''mail-list'',
      preventDefault = None, ignore = None\<rparr>,
     \<lparr>keys = [js ''escape''], action = js ''exitSelectionMode'', type = Single,
      description = js ''Exit selection mode'', scope = js ''mail-list'',
      preventDefault = None, ignore = None\<rparr>,
     \<lparr>keys = [js ''mod'', js ''a''], action = js ''selectAll'', type = Combination,
      description = js ''Select all emails'', scope = js ''mail-list'',
      preventDefault = Some True, ignore = None\<rparr>,
     \<lparr>keys = [js ''1''], action = js ''showImportant'', type = Single,
      description = js ''Show important'', scope = js ''mail-list'',
      preventDefault = None, ignore = None\<rparr>,
     \<lparr>keys = [js ''2''], action = js ''showAllMail'', type = Single,
      description = js ''Show all mail'', scope = js ''mail-list'',
      preventDefault = None, ignore = None\<rparr>,
     \<lparr>keys = [js ''3''], action = js ''showPersonal'', type = Single,
      description = js ''Show personal'', scope = js ''mail-list'',
      preventDefault = None, ignore = None\<rparr>,
     \<lparr>keys = [js ''4''], action = js ''showUpdates'', type = Single,
      description = js ''Show updates'', scope = js ''mail-list'',
      preventDefault = None, ignore = None\<rparr>,
     \<lparr>keys = [js ''5''], action = js ''showPromotions'', type = Single,
      description = js ''Show promotions'', scope = js ''mail-list'',
      preventDefault = None, ignore = None\<rparr>,
     \<lparr>keys = [js ''6''], action = js ''showUnread'', type = Single,
      description = js ''Show unread'', scope = js ''mail-list'',
      preventDefault = None, ignore = None\<rparr>,
     \<lparr>keys = [js ''alt'', js ''shift'', js ''click''], action = js ''selectUnderCursor'', type = Combination,
      description = js ''Select under cursor'', scope = js ''mail-list'',
      preventDefault = None, ignore = Some True\<rparr>]"

definition composeShortcuts :: "Shortcut list" where
  "composeShortcuts =
    [\<lparr>keys = [js ''mod'', js ''Enter''], action = js ''sendEmail'', type = Combination,
      description = js ''Send email'', scope = js ''compose'',
      preventDefault = None, ignore = None\<rparr>,
     \<lparr>keys = [js ''escape''], action = js ''closeCompose'', type = Single,
      description = js ''Close compose'', scope = js ''compose'',
      preventDefault = None, ignore = None\<rparr>]"

text \<open>The exported registry spreads the five groups into one array, in this order.\<close>

definition keyboardShortcuts :: "Shortcut list" where
  "keyboardShortcuts =
     navigation @ threadDisplayShortcuts @ globalShortcuts @ mailListShortcuts @ composeShortcuts"

subsection \<open>Vocabulary of the properties\<close>

text \<open>
  The key names that the \<open>switch\<close> handles before its \<open>default\<close> case, as the
  specification lists them; a key belongs to the fixed-override set when its
  lower-cased form is one of them.
\<close>

definition fixedOverrideNames :: "js_string list" where
  "fixedOverrideNames =
     [js ''mod'', js ''meta'', js ''ctrl'', js ''control'', js ''alt'', js ''shift'',
      js ''escape'', js ''backspace'', js ''enter'', js ''space'']"

text \<open>The contract of the imported functions: none of them ever throws.\<close>

definition servicesTotal :: "'c env \<Rightarrow> bool" where
  "servicesTotal e =
     (getDetectedLayout e \<noteq> Throws \<and> (\<forall>key. getKeyCodeFromKey e key \<noteq> Throws) \<and>
      (\<forall>code. getKeyForCode e code \<noteq> Throws) \<and> (\<forall>codes. mapKeys e codes \<noteq> Throws))"

subsection \<open>Sample environments\<close>

text \<open>
  Concrete environments on which the theorems are instantiated. Key codes are strings:
  the sample lookup turns a one-character key \<open>x\<close> into \<open>KeyX\<close> and passes every other
  name through; the sample mapper is an AZERTY layout, on which the physical keys
  \<open>KeyA\<close> and \<open>KeyQ\<close>, and \<open>KeyZ\<close> and \<open>KeyW\<close>, are exchanged, with every other
  \<open>KeyX\<close> giving \<open>x\<close> and every other code passed through.
\<close>

definition sampleKeyCodeFromKey :: "js_string \<Rightarrow> js_string outcome" where
  "sampleKeyCodeFromKey key =
     Returns (if length key = 1 then js ''Key'' @ map ascii_upper key else key)"

definition sampleKeyForCode :: "js_string \<Rightarrow> js_string" where
  "sampleKeyForCode code =
     (if code = js ''KeyA'' then js ''q''
      else if code = js ''KeyQ'' then js ''a''
      else if code = js ''KeyZ'' then js ''w''
      else if code = js ''KeyW'' then js ''z''
      else if length code = 4 \<and> take 3 code = js ''Key'' then map ascii_lower (drop 3 code)
      else code)"

definition sampleEnv :: "js_string \<Rightarrow> layout_info option \<Rightarrow> js_string env" where
  "sampleEnv platform detected =
     \<lparr>navigator_platform = platform,
      unicode_lower = (\<lambda>s. s), unicode_upper = (\<lambda>s. s),
      getDetectedLayout = Returns detected,
      getKeyForCode = (\<lambda>code. Returns (sampleKeyForCode code)),
      mapKeys = (\<lambda>codes. Returns (map sampleKeyForCode codes)),
      getKeyCodeFromKey = sampleKeyCodeFromKey\<rparr>"

text \<open>An environment whose code lookup and layout mapper throw on every call.\<close>

definition throwingEnv :: "js_string \<Rightarrow> layout_info option \<Rightarrow> js_string env" where
  "throwingEnv platform detected =
     \<lparr>navigator_platform = platform,
      unicode_lower = (\<lambda>s. s), unicode_upper = (\<lambda>s. s),
      getDetectedLayout = Returns detected,
      getKeyForCode = (\<lambda>code. Throws),
      mapKeys = (\<lambda>codes. Throws),
      getKeyCodeFromKey = (\<lambda>key. Throws)\<rparr>"

definition sampleShortcut :: "js_string list \<Rightarrow> Shortcut" where
  "sampleShortcut ks =
     \<lparr>keys = ks, action = js ''sample'', type = Combination,
      description = js ''Sample'', scope = js ''global'',
      preventDefault = Some True, ignore = None\<rparr>"

section \<open>Auxiliary facts\<close>

subsection \<open>Strings, the array map and the per-key function\<close>

lemma array_map_length: "array_map f xs = Inr ys \<Longrightarrow> length ys = length xs"
  by (induction xs arbitrary: ys) (auto split: sum.splits)

lemma array_map_nth:
  "array_map f xs = Inr ys \<Longrightarrow> i < length xs \<Longrightarrow> f (xs ! i) = Inr (ys ! i)"
proof (induction xs arbitrary: ys i)
  case Nil
  then show ?case by simp
next
  case (Cons x xs)
  then show ?case by (cases i) (auto split: sum.splits)
qed

lemma array_map_total:
  "list_all (\<lambda>x. \<exists>y. f x = Inr y) xs \<Longrightarrow> \<exists>ys. array_map f xs = Inr ys"
  by (induction xs) auto

lemma unat_of_char: "unat (of_char c :: 16 word) = of_char c"
proof -
  have "(of_char c :: 16 word) = of_nat (of_char c)"
    by (simp add: of_nat_of_char)
  then have "unat (of_char c :: 16 word) = (of_char c :: nat) mod 2 ^ 16"
    by (simp add: unat_of_nat)
  moreover have "(of_char c :: nat) < 2 ^ 16"
  proof -
    have "(of_char c :: nat) < 256" by (rule nat_of_char_less_256)
    also have "(256 :: nat) < 2 ^ 16" by simp
    finally show ?thesis .
  qed
  ultimately show ?thesis by simp
qed

lemma js_eq_iff [simp]: "js a = js b \<longleftrightarrow> a = b"
proof
  assume "js a = js b"
  then have "map unat (js a) = map unat (js b)" by simp
  moreover have "map unat (js s) = map of_char s" for s
    by (simp add: js_def unat_of_char)
  ultimately have "map (of_char :: char \<Rightarrow> nat) a = map of_char b"
    by simp
  then show "a = b"
    by (simp add: inj_map_eq_map [OF inj_of_char])
qed simp

lemma js_Nil_iff [simp]: "js a = [] \<longleftrightarrow> a = []" "[] = js a \<longleftrightarrow> a = []"
  by (auto simp: js_def)

lemma displayKey_unrecognized:
  assumes "toLowerCase e key \<notin> set fixedOverrideNames"
  shows "displayKey e d key =
     (if (case d of None \<Rightarrow> False | Some info \<Rightarrow> layout info \<noteq> [] \<and> layout info \<noteq> js ''qwerty'')
      then (case getKeyCodeFromKey e key of
           Throws \<Rightarrow> Inl KeyCodeFromKeyThrew
         | Returns keyCode \<Rightarrow>
             (case getKeyForCode e keyCode of
                Throws \<Rightarrow> Inl KeyForCodeThrew
              | Returns mappedKey \<Rightarrow>
                  Inr (if length mappedKey = 1 then toUpperCase e mappedKey else mappedKey)))
      else Inr (if length key = 1 then toUpperCase e key else key))"
  using assms unfolding displayKey_def fixedOverrideNames_def Let_def
  by simp

lemma fixed_names_distinct: "distinct fixedOverrideNames"
  by (simp add: fixedOverrideNames_def)

lemma displayKey_mod:
  "toLowerCase e key = js ''mod'' \<Longrightarrow> displayKey e d key =
     Inr (if string_includes (navigator_platform e) (js ''Mac'') then glyph_command else js ''Ctrl'')"
  by (simp add: displayKey_def Let_def)

lemma displayKey_meta: "toLowerCase e key = js ''meta'' \<Longrightarrow> displayKey e d key = Inr glyph_command"
  by (simp add: displayKey_def Let_def)

lemma displayKey_ctrl: "toLowerCase e key = js ''ctrl'' \<or> toLowerCase e key = js ''control'' \<Longrightarrow> displayKey e d key = Inr (js ''Ctrl'')"
  by (auto simp add: displayKey_def Let_def)

lemma displayKey_alt: "toLowerCase e key = js ''alt'' \<Longrightarrow> displayKey e d key = 
   Inr (if string_includes (navigator_platform e) (js ''Mac'') then glyph_option else js ''Alt'')"
  by (simp add: displayKey_def Let_def)

lemma displayKey_shift: "toLowerCase e key = js ''shift'' \<Longrightarrow> displayKey e d key = Inr glyph_shift"
  by (simp add: displayKey_def Let_def)

lemma displayKey_escape: "toLowerCase e key = js ''escape'' \<Longrightarrow> displayKey e d key = Inr (js ''Esc'')"
  by (simp add: displayKey_def Let_def)

lemma displayKey_backspace: "toLowerCase e key = js ''backspace'' \<Longrightarrow> displayKey e d key = Inr glyph_backspace"
  by (simp add: displayKey_def Let_def)

lemma displayKey_enter: "toLowerCase e key = js ''enter'' \<Longrightarrow> displayKey e d key = Inr glyph_enter"
  by (simp add: displayKey_def Let_def)

lemma displayKey_space: "toLowerCase e key = js ''space'' \<Longrightarrow> displayKey e d key = Inr (js ''Space'')"
  by (simp add: displayKey_def Let_def)

lemma displayKey_fixed_returns:
  "toLowerCase e key \<in> set fixedOverrideNames \<Longrightarrow> \<exists>l. displayKey e d key = Inr l"
  unfolding displayKey_def fixedOverrideNames_def Let_def by auto

lemma displayKey_total:
  assumes "servicesTotal e"
  shows "\<exists>l. displayKey e d key = Inr l"
proof (cases "toLowerCase e key \<in> set fixedOverrideNames")
  case True
  then show ?thesis by (rule displayKey_fixed_returns)
next
  case False
  obtain c where c: "getKeyCodeFromKey e key = Returns c"
    using assms unfolding servicesTotal_def by (metis outcome.exhaust)
  obtain m where m: "getKeyForCode e c = Returns m"
    using assms unfolding servicesTotal_def by (metis outcome.exhaust)
  show ?thesis by (simp add: displayKey_unrecognized [OF False] c m)
qed

lemma getDisplayKeys_total:
  assumes "servicesTotal e"
  shows "\<exists>labels. getDisplayKeysForShortcut e s = Inr labels"
proof -
  obtain d where d: "getDetectedLayout e = Returns d"
    using assms unfolding servicesTotal_def by (metis outcome.exhaust)
  have "list_all (\<lambda>key. \<exists>l. displayKey e d key = Inr l) (keys s)"
    using displayKey_total [OF assms] by (simp add: list_all_iff)
  then show ?thesis
    unfolding getDisplayKeysForShortcut_def d by (simp add: array_map_total)
qed

subsection \<open>The enhancement step\<close>

lemma keyCodeOf_total:
  "servicesTotal e \<Longrightarrow> \<exists>c. keyCodeOf e key = Inr c"
  unfolding servicesTotal_def keyCodeOf_def by (cases "getKeyCodeFromKey e key") auto

lemma array_map_keyCodeOf:
  "array_map (keyCodeOf e) ks = Inr codes \<longleftrightarrow> map (getKeyCodeFromKey e) ks = map Returns codes"
proof (induction ks arbitrary: codes)
  case Nil
  then show ?case by auto
next
  case (Cons k ks)
  show ?case
  proof (cases "getKeyCodeFromKey e k")
    case Throws
    then show ?thesis by (auto simp: keyCodeOf_def)
  next
    case (Returns c)
    then show ?thesis
      using Cons [of "tl codes"] by (cases codes) (auto simp: keyCodeOf_def split: sum.splits)
  qed
qed

lemma enhanceShortcut_Inr:
  assumes "enhanceShortcut e s = Inr es"
  shows "\<exists>dks codes mks.
           getDisplayKeysForShortcut e s = Inr dks \<and>
           array_map (keyCodeOf e) (keys s) = Inr codes \<and>
           mapKeys e codes = Returns mks \<and>
           es = \<lparr>keys = keys s, action = action s, type = type s,
                 description = description s, scope = scope s,
                 preventDefault = preventDefault s, ignore = ignore s,
                 mappedKeys = Some mks, displayKeys = Some dks\<rparr>"
  using assms unfolding enhanceShortcut_def
  by (auto split: sum.splits outcome.splits)

lemma enhanceShortcut_total:
  assumes "servicesTotal e"
  shows "\<exists>es. enhanceShortcut e s = Inr es"
proof -
  obtain dks where dks: "getDisplayKeysForShortcut e s = Inr dks"
    using getDisplayKeys_total [OF assms] by blast
  have "list_all (\<lambda>key. \<exists>c. keyCodeOf e key = Inr c) (keys s)"
    using keyCodeOf_total [OF assms] by (simp add: list_all_iff)
  then obtain codes where codes: "array_map (keyCodeOf e) (keys s) = Inr codes"
    using array_map_total by blast
  obtain mks where mks: "mapKeys e codes = Returns mks"
    using assms unfolding servicesTotal_def by (metis outcome.exhaust)
  show ?thesis by (simp add: enhanceShortcut_def dks codes mks)
qed

lemma enhanceShortcuts_total:
  assumes "servicesTotal e"
  shows "\<exists>enhanced. enhanceShortcutsWithMapping e shortcuts = Inr enhanced"
proof -
  have "list_all (\<lambda>s. \<exists>es. enhanceShortcut e s = Inr es) shortcuts"
    using enhanceShortcut_total [OF assms] by (simp add: list_all_iff)
  then show ?thesis
    unfolding enhanceShortcutsWithMapping_def by (rule array_map_total)
qed

lemma getDisplayKeys_Inr:
  assumes "getDisplayKeysForShortcut e s = Inr labels"
  shows "\<exists>d. getDetectedLayout e = Returns d \<and> array_map (displayKey e d) (keys s) = Inr labels"
  using assms unfolding getDisplayKeysForShortcut_def by (auto split: outcome.splits)

lemma getDisplayKeys_nth:
  assumes "getDisplayKeysForShortcut e s = Inr labels" and "i < length (keys s)"
  shows "\<exists>d. getDetectedLayout e = Returns d \<and> displayKey e d (keys s ! i) = Inr (labels ! i)"
  using getDisplayKeys_Inr [OF assms(1)] array_map_nth [OF _ assms(2)] by blast


subsection \<open>Evaluation on the sample environments\<close>

lemmas eval_defs =
  getDisplayKeysForShortcut_def displayKey_def Let_def toLowerCase_def toUpperCase_def
  is_ascii_def ascii_lower_def ascii_upper_def js_def sampleEnv_def throwingEnv_def
  sampleShortcut_def sampleKeyCodeFromKey_def sampleKeyForCode_def
  glyph_command_def glyph_option_def glyph_shift_def glyph_backspace_def glyph_enter_def

lemma sampleEnv_total: "servicesTotal (sampleEnv p d)"
  by (simp add: servicesTotal_def sampleEnv_def sampleKeyCodeFromKey_def)

subsection \<open>The default and the layout-aware branch\<close>

lemma displayKey_default:
  assumes "toLowerCase e key \<notin> set fixedOverrideNames"
      and "d = None \<or> d = Some \<lparr>layout = []\<rparr> \<or> d = Some \<lparr>layout = js ''qwerty''\<rparr>"
  shows "displayKey e d key = Inr (if length key = 1 then toUpperCase e key else key)"
  using assms(2) by (auto simp: displayKey_unrecognized [OF assms(1)])

lemma displayKey_mapped:
  assumes "toLowerCase e key \<notin> set fixedOverrideNames"
      and "layout info \<noteq> []" and "layout info \<noteq> js ''qwerty''"
  shows "displayKey e (Some info) key =
     (case getKeyCodeFromKey e key of
        Throws \<Rightarrow> Inl KeyCodeFromKeyThrew
      | Returns keyCode \<Rightarrow>
          (case getKeyForCode e keyCode of
             Throws \<Rightarrow> Inl KeyForCodeThrew
           | Returns mappedKey \<Rightarrow>
               Inr (if length mappedKey = 1 then toUpperCase e mappedKey else mappedKey)))"
  using assms(2,3) by (simp add: displayKey_unrecognized [OF assms(1)])

lemma displayKey_default_returns:
  assumes "d = None \<or> d = Some \<lparr>layout = []\<rparr> \<or> d = Some \<lparr>layout = js ''qwerty''\<rparr>"
  shows "\<exists>l. displayKey e d key = Inr l"
proof (cases "toLowerCase e key \<in> set fixedOverrideNames")
  case True
  then show ?thesis by (rule displayKey_fixed_returns)
next
  case False
  then show ?thesis using displayKey_default [OF False assms] by simp
qed

lemma getDisplayKeys_default_returns:
  assumes "getDetectedLayout e = Returns d"
      and "d = None \<or> d = Some \<lparr>layout = []\<rparr> \<or> d = Some \<lparr>layout = js ''qwerty''\<rparr>"
  shows "\<exists>labels. getDisplayKeysForShortcut e s = Inr labels"
proof -
  have "list_all (\<lambda>key. \<exists>l. displayKey e d key = Inr l) (keys s)"
    by (simp add: list_all_iff displayKey_default_returns [OF assms(2)])
  then show ?thesis
    unfolding getDisplayKeysForShortcut_def assms(1) by (simp add: array_map_total)
qed

lemma displayKey_default_services:
  assumes "d = None \<or> d = Some \<lparr>layout = []\<rparr> \<or> d = Some \<lparr>layout = js ''qwerty''\<rparr>"
  shows "displayKey (e\<lparr>getKeyForCode := mapper, mapKeys := batch, getKeyCodeFromKey := lookup\<rparr>) d
           = displayKey e d"
  using assms by (auto simp: fun_eq_iff displayKey_def toLowerCase_def toUpperCase_def Let_def)

lemma getDisplayKeys_default_services:
  assumes "getDetectedLayout e = Returns d"
      and "d = None \<or> d = Some \<lparr>layout = []\<rparr> \<or> d = Some \<lparr>layout = js ''qwerty''\<rparr>"
  shows "getDisplayKeysForShortcut
           (e\<lparr>getKeyForCode := mapper, mapKeys := batch, getKeyCodeFromKey := lookup\<rparr>) s
         = getDisplayKeysForShortcut e s"
  unfolding getDisplayKeysForShortcut_def
  using assms(1) by (simp add: displayKey_default_services [OF assms(2)])


subsection \<open>Records of the enhancement and of the registry\<close>

lemma enhance_nth:
  assumes "enhanceShortcutsWithMapping e shortcuts = Inr enhanced" and "i < length shortcuts"
  shows "Shortcut.truncate (enhanced ! i) = shortcuts ! i \<and>
         (\<exists>labels codes mapped.
            getDisplayKeysForShortcut e (shortcuts ! i) = Inr labels \<and>
            displayKeys (enhanced ! i) = Some labels \<and>
            map (getKeyCodeFromKey e) (keys (shortcuts ! i)) = map Returns codes \<and>
            mapKeys e codes = Returns mapped \<and>
            mappedKeys (enhanced ! i) = Some mapped)"
proof -
  have m: "array_map (enhanceShortcut e) shortcuts = Inr enhanced"
    using assms(1) by (simp add: enhanceShortcutsWithMapping_def)
  have "enhanceShortcut e (shortcuts ! i) = Inr (enhanced ! i)"
    using m assms(2) by (rule array_map_nth)
  then obtain labels codes mapped where
    l: "getDisplayKeysForShortcut e (shortcuts ! i) = Inr labels" and
    c: "array_map (keyCodeOf e) (keys (shortcuts ! i)) = Inr codes" and
    k: "mapKeys e codes = Returns mapped" and
    r: "enhanced ! i =
       \<lparr>keys = keys (shortcuts ! i), action = action (shortcuts ! i), type = type (shortcuts ! i),
        description = description (shortcuts ! i), scope = scope (shortcuts ! i),
        preventDefault = preventDefault (shortcuts ! i), ignore = ignore (shortcuts ! i),
        mappedKeys = Some mapped, displayKeys = Some labels\<rparr>"
    using enhanceShortcut_Inr by blast
  have t: "Shortcut.truncate (enhanced ! i) = shortcuts ! i"
    by (simp add: r Shortcut.truncate_def)
  have c': "map (getKeyCodeFromKey e) (keys (shortcuts ! i)) = map Returns codes"
    using c by (simp add: array_map_keyCodeOf)
  show ?thesis
    using t l c' k r by auto
qed

lemma enhance_length:
  "enhanceShortcutsWithMapping e shortcuts = Inr enhanced \<Longrightarrow> length enhanced = length shortcuts"
  unfolding enhanceShortcutsWithMapping_def by (rule array_map_length)

lemmas enhance_defs =
  enhanceShortcutsWithMapping_def enhanceShortcut_def keyCodeOf_def

lemmas registry_defs =
  keyboardShortcuts_def navigation_def threadDisplayShortcuts_def globalShortcuts_def
  mailListShortcuts_def composeShortcuts_def

lemma group_lengths:
  "length navigation = 7" "length threadDisplayShortcuts = 4" "length globalShortcuts = 5"
  "length mailListShortcuts = 16" "length composeShortcuts = 2"
  by (simp_all add: registry_defs)


subsection \<open>Substring test\<close>

lemma string_includes_iff: "string_includes s t \<longleftrightarrow> (\<exists>a b. s = a @ t @ b)"
proof (induction s)
  case Nil
  then show ?case by auto
next
  case (Cons c cs)
  have "take (length t) (c # cs) = t \<longleftrightarrow> (\<exists>b. c # cs = t @ b)"
    by (metis append_eq_conv_conj)
  moreover have "(\<exists>a b. c # cs = a @ t @ b) \<longleftrightarrow>
      (\<exists>b. c # cs = t @ b) \<or> (\<exists>a b. cs = a @ t @ b)"
    by (auto simp: Cons_eq_append_conv)
  ultimately show ?case using Cons by simp
qed

section \<open>Properties of getDisplayKeysForShortcut\<close>

text \<open>
  Claim C1. A key whose lower-cased form is one of the ten fixed names gets its fixed
  label at its position in the result of \<open>getDisplayKeysForShortcut\<close>, whatever layout
  the detector reports: \<open>mod\<close> gives the command glyph when \<open>navigator.platform\<close>
  contains \<open>Mac\<close> and \<open>Ctrl\<close> otherwise, \<open>meta\<close> the command glyph, \<open>ctrl\<close> and
  \<open>control\<close> give \<open>Ctrl\<close>, \<open>alt\<close> the option glyph on a Mac and \<open>Alt\<close> otherwise,
  \<open>shift\<close>, \<open>backspace\<close> and \<open>enter\<close> their glyphs, \<open>escape\<close> gives \<open>Esc\<close> and
  \<open>space\<close> gives \<open>Space\<close>. The call returns whenever the imported functions do.
\<close>

theorem fixed_override_labels:
  assumes "i < length (keys s)" and "k = toLowerCase e (keys s ! i)"
  shows "(\<forall>labels. getDisplayKeysForShortcut e s = Inr labels \<longrightarrow>
           (k = js ''mod'' \<longrightarrow> labels ! i =
              (if string_includes (navigator_platform e) (js ''Mac'') then glyph_command else js ''Ctrl'')) \<and>
           (k = js ''meta'' \<longrightarrow> labels ! i = glyph_command) \<and>
           (k = js ''ctrl'' \<or> k = js ''control'' \<longrightarrow> labels ! i = js ''Ctrl'') \<and>
           (k = js ''alt'' \<longrightarrow> labels ! i =
              (if string_includes (navigator_platform e) (js ''Mac'') then glyph_option else js ''Alt'')) \<and>
           (k = js ''shift'' \<longrightarrow> labels ! i = glyph_shift) \<and>
           (k = js ''escape'' \<longrightarrow> labels ! i = js ''Esc'') \<and>
           (k = js ''backspace'' \<longrightarrow> labels ! i = glyph_backspace) \<and>
           (k = js ''enter'' \<longrightarrow> labels ! i = glyph_enter) \<and>
           (k = js ''space'' \<longrightarrow> labels ! i = js ''Space''))
       \<and> (servicesTotal e \<longrightarrow> (\<exists>labels. getDisplayKeysForShortcut e s = Inr labels))"
proof (intro conjI allI impI)
  fix labels
  assume r: "getDisplayKeysForShortcut e s = Inr labels"
  then obtain d where l: "displayKey e d (keys s ! i) = Inr (labels ! i)"
    using getDisplayKeys_nth [OF r assms(1)] by blast
  note k = assms(2) [symmetric]
  { assume "k = js ''mod''"
    then show "labels ! i =
        (if string_includes (navigator_platform e) (js ''Mac'') then glyph_command else js ''Ctrl'')"
      using l displayKey_mod [of e "keys s ! i" d] k by simp }
  { assume "k = js ''meta''"
    then show "labels ! i = glyph_command"
      using l displayKey_meta [of e "keys s ! i" d] k by simp }
  { assume "k = js ''ctrl'' \<or> k = js ''control''"
    then show "labels ! i = js ''Ctrl''"
      using l displayKey_ctrl [of e "keys s ! i" d] k by simp }
  { assume "k = js ''alt''"
    then show "labels ! i =
        (if string_includes (navigator_platform e) (js ''Mac'') then glyph_option else js ''Alt'')"
      using l displayKey_alt [of e "keys s ! i" d] k by simp }
  { assume "k = js ''shift''"
    then show "labels ! i = glyph_shift"
      using l displayKey_shift [of e "keys s ! i" d] k by simp }
  { assume "k = js ''escape''"
    then show "labels ! i = js ''Esc''"
      using l displayKey_escape [of e "keys s ! i" d] k by simp }
  { assume "k = js ''backspace''"
    then show "labels ! i = glyph_backspace"
      using l displayKey_backspace [of e "keys s ! i" d] k by simp }
  { assume "k = js ''enter''"
    then show "labels ! i = glyph_enter"
      using l displayKey_enter [of e "keys s ! i" d] k by simp }
  { assume "k = js ''space''"
    then show "labels ! i = js ''Space''"
      using l displayKey_space [of e "keys s ! i" d] k by simp }
next
  assume "servicesTotal e"
  then show "\<exists>labels. getDisplayKeysForShortcut e s = Inr labels"
    by (rule getDisplayKeys_total)
qed

theorem fixed_override_labels_witness:
  "servicesTotal (sampleEnv (js ''MacIntel'') (Some \<lparr>layout = js ''azerty''\<rparr>)) \<and>
   getDisplayKeysForShortcut (sampleEnv (js ''MacIntel'') (Some \<lparr>layout = js ''azerty''\<rparr>))
     (sampleShortcut [js ''Mod'', js ''META'', js ''ctrl'', js ''Control'', js ''Alt'',
                      js ''SHIFT'', js ''Escape'', js ''backspace'', js ''Enter'', js ''space''])
     = Inr [glyph_command, glyph_command, js ''Ctrl'', js ''Ctrl'', glyph_option,
            glyph_shift, js ''Esc'', glyph_backspace, glyph_enter, js ''Space''] \<and>
   getDisplayKeysForShortcut (throwingEnv (js ''Win32'') None) (sampleShortcut [js ''mod'', js ''alt''])
     = Inr [js ''Ctrl'', js ''Alt'']"
  using fixed_override_labels
    [of 0 "sampleShortcut [js ''Mod'', js ''META'', js ''ctrl'', js ''Control'', js ''Alt'',
                      js ''SHIFT'', js ''Escape'', js ''backspace'', js ''Enter'', js ''space'']"
        "js ''mod''" "sampleEnv (js ''MacIntel'') (Some \<lparr>layout = js ''azerty''\<rparr>)"]
  by (simp add: sampleEnv_total) (simp add: eval_defs)

text \<open>
  Claim C2. As stated (a key outside the fixed set gets its own upper-cased or unchanged
  name in every branch) the claim fails: with the layout \<open>azerty\<close> the key \<open>a\<close> is shown
  as \<open>Q\<close>, the label of the physical key, not as \<open>A\<close>.
\<close>

theorem unrecognized_key_counterexample:
  "getDetectedLayout (sampleEnv (js ''Win32'') (Some \<lparr>layout = js ''azerty''\<rparr>))
     = Returns (Some \<lparr>layout = js ''azerty''\<rparr>) \<and>
   toLowerCase (sampleEnv (js ''Win32'') (Some \<lparr>layout = js ''azerty''\<rparr>)) (js ''a'')
     \<notin> set fixedOverrideNames \<and>
   length (js ''a'') = 1 \<and>
   toUpperCase (sampleEnv (js ''Win32'') (Some \<lparr>layout = js ''azerty''\<rparr>)) (js ''a'') = js ''A'' \<and>
   getDisplayKeysForShortcut (sampleEnv (js ''Win32'') (Some \<lparr>layout = js ''azerty''\<rparr>))
     (sampleShortcut [js ''a'']) = Inr [js ''Q''] \<and>
   js ''Q'' \<noteq> js ''A''"
  by (simp add: eval_defs fixedOverrideNames_def)

text \<open>
  Claim C2. As amended: for a key outside the fixed set, when the layout is absent,
  has the empty identifier or is \<open>qwerty\<close>, the label is the key name, upper-cased when
  it is exactly one code unit long and unchanged otherwise; when the layout has another
  identifier, the same rule is applied to the label that \<open>getKeyForCode\<close> returns for
  the key's code instead of to the key name.
\<close>

theorem unrecognized_key_label:
  assumes "getDetectedLayout e = Returns d"
      and "i < length (keys s)" and "key = keys s ! i"
      and "toLowerCase e key \<notin> set fixedOverrideNames"
  shows "(\<forall>labels. getDisplayKeysForShortcut e s = Inr labels \<longrightarrow>
            (d = None \<or> d = Some \<lparr>layout = []\<rparr> \<or> d = Some \<lparr>layout = js ''qwerty''\<rparr> \<longrightarrow>
               labels ! i = (if length key = 1 then toUpperCase e key else key)) \<and>
            (\<forall>info. d = Some info \<and> layout info \<noteq> [] \<and> layout info \<noteq> js ''qwerty'' \<longrightarrow>
               (\<exists>keyCode mappedKey.
                  getKeyCodeFromKey e key = Returns keyCode \<and>
                  getKeyForCode e keyCode = Returns mappedKey \<and>
                  labels ! i =
                    (if length mappedKey = 1 then toUpperCase e mappedKey else mappedKey))))
       \<and> (servicesTotal e \<longrightarrow> (\<exists>labels. getDisplayKeysForShortcut e s = Inr labels))"
proof -
  have l: "displayKey e d key = Inr (labels ! i)"
    if "getDisplayKeysForShortcut e s = Inr labels" for labels
    using getDisplayKeys_nth [OF that assms(2)] assms(1,3) by auto
  have a: "labels ! i = (if length key = 1 then toUpperCase e key else key)"
    if "getDisplayKeysForShortcut e s = Inr labels"
      and "d = None \<or> d = Some \<lparr>layout = []\<rparr> \<or> d = Some \<lparr>layout = js ''qwerty''\<rparr>"
    for labels
    using l [OF that(1)] displayKey_default [OF assms(4) that(2)] by simp
  have b: "\<exists>keyCode mappedKey.
              getKeyCodeFromKey e key = Returns keyCode \<and>
              getKeyForCode e keyCode = Returns mappedKey \<and>
              labels ! i = (if length mappedKey = 1 then toUpperCase e mappedKey else mappedKey)"
    if "getDisplayKeysForShortcut e s = Inr labels"
      and "d = Some info" and "layout info \<noteq> []" and "layout info \<noteq> js ''qwerty''"
    for labels info
    using l [OF that(1)] unfolding that(2) displayKey_mapped [OF assms(4) that(3,4)]
    by (auto split: outcome.splits)
  show ?thesis
    using a b getDisplayKeys_total [of e s] by blast
qed

theorem unrecognized_key_label_witness:
  "servicesTotal (sampleEnv (js ''Win32'') (Some \<lparr>layout = js ''azerty''\<rparr>)) \<and>
   getDisplayKeysForShortcut (sampleEnv (js ''Win32'') (Some \<lparr>layout = js ''azerty''\<rparr>))
     (sampleShortcut [js ''mod'', js ''z'']) = Inr [js ''Ctrl'', js ''W''] \<and>
   getKeyCodeFromKey (sampleEnv (js ''Win32'') (Some \<lparr>layout = js ''azerty''\<rparr>)) (js ''z'')
     = Returns (js ''KeyZ'') \<and>
   getKeyForCode (sampleEnv (js ''Win32'') (Some \<lparr>layout = js ''azerty''\<rparr>)) (js ''KeyZ'')
     = Returns (js ''w'') \<and>
   getDisplayKeysForShortcut (sampleEnv (js ''Win32'') (Some \<lparr>layout = []\<rparr>))
     (sampleShortcut [js ''mod'', js ''z'']) = Inr [js ''Ctrl'', js ''Z'']"
proof -
  let ?a = "sampleEnv (js ''Win32'') (Some \<lparr>layout = js ''azerty''\<rparr>)"
  let ?b = "sampleEnv (js ''Win32'') (Some \<lparr>layout = []\<rparr>)"
  let ?s = "sampleShortcut [js ''mod'', js ''z'']"
  have da: "getDetectedLayout ?a = Returns (Some \<lparr>layout = js ''azerty''\<rparr>)"
    and db: "getDetectedLayout ?b = Returns (Some \<lparr>layout = []\<rparr>)"
    by (simp_all add: sampleEnv_def)
  have i: "1 < length (keys ?s)" and k: "js ''z'' = keys ?s ! 1"
    by (simp_all add: sampleShortcut_def)
  have na: "toLowerCase ?a (js ''z'') \<notin> set fixedOverrideNames"
    and nb: "toLowerCase ?b (js ''z'') \<notin> set fixedOverrideNames"
    by (simp_all add: eval_defs fixedOverrideNames_def)
  have ra: "getDisplayKeysForShortcut ?a ?s = Inr [js ''Ctrl'', js ''W'']"
    and rb: "getDisplayKeysForShortcut ?b ?s = Inr [js ''Ctrl'', js ''Z'']"
    and c: "getKeyCodeFromKey ?a (js ''z'') = Returns (js ''KeyZ'')"
    and m: "getKeyForCode ?a (js ''KeyZ'') = Returns (js ''w'')"
    by (simp_all add: eval_defs)
  show ?thesis
    using unrecognized_key_label [OF da i k na] unrecognized_key_label [OF db i k nb]
      sampleEnv_total ra rb c m
    by blast
qed

text \<open>
  Claim C3. As stated (any detected layout whose identifier is not \<open>qwerty\<close> is
  resolved through the code lookup and the layout mapper) the claim fails for the empty
  identifier, which \<open>detectedLayout?.layout &&\<close> treats as no layout: the key \<open>a\<close> is
  then shown as \<open>A\<close> although the mapper would give \<open>q\<close>.
\<close>

theorem layout_mapped_counterexample:
  "getDetectedLayout (sampleEnv (js ''Win32'') (Some \<lparr>layout = []\<rparr>))
     = Returns (Some \<lparr>layout = []\<rparr>) \<and>
   layout \<lparr>layout = []\<rparr> \<noteq> js ''qwerty'' \<and>
   toLowerCase (sampleEnv (js ''Win32'') (Some \<lparr>layout = []\<rparr>)) (js ''a'')
     \<notin> set fixedOverrideNames \<and>
   getKeyCodeFromKey (sampleEnv (js ''Win32'') (Some \<lparr>layout = []\<rparr>)) (js ''a'')
     = Returns (js ''KeyA'') \<and>
   getKeyForCode (sampleEnv (js ''Win32'') (Some \<lparr>layout = []\<rparr>)) (js ''KeyA'')
     = Returns (js ''q'') \<and>
   toUpperCase (sampleEnv (js ''Win32'') (Some \<lparr>layout = []\<rparr>)) (js ''q'') = js ''Q'' \<and>
   getDisplayKeysForShortcut (sampleEnv (js ''Win32'') (Some \<lparr>layout = []\<rparr>))
     (sampleShortcut [js ''a'']) = Inr [js ''A''] \<and>
   js ''A'' \<noteq> js ''Q''"
  by (simp add: eval_defs fixedOverrideNames_def)

text \<open>
  Claim C3. As amended: for a key outside the fixed set, when the detected layout is
  present and its identifier is neither empty nor \<open>qwerty\<close>, the label is obtained by
  calling \<open>getKeyCodeFromKey\<close> on the key name and \<open>getKeyForCode\<close> on the resulting
  code; the mapped label is upper-cased when it is exactly one code unit long and used
  verbatim otherwise. The call returns whenever the imported functions do.
\<close>

theorem layout_mapped_label:
  assumes "getDetectedLayout e = Returns (Some info)"
      and "layout info \<noteq> []" and "layout info \<noteq> js ''qwerty''"
      and "i < length (keys s)" and "key = keys s ! i"
      and "toLowerCase e key \<notin> set fixedOverrideNames"
  shows "(\<forall>labels. getDisplayKeysForShortcut e s = Inr labels \<longrightarrow>
            (\<exists>keyCode mappedKey.
               getKeyCodeFromKey e key = Returns keyCode \<and>
               getKeyForCode e keyCode = Returns mappedKey \<and>
               labels ! i = (if length mappedKey = 1 then toUpperCase e mappedKey else mappedKey)))
       \<and> (servicesTotal e \<longrightarrow> (\<exists>labels. getDisplayKeysForShortcut e s = Inr labels))"
proof (intro conjI allI impI)
  fix labels
  assume r: "getDisplayKeysForShortcut e s = Inr labels"
  obtain d' where "getDetectedLayout e = Returns d'"
    and "displayKey e d' (keys s ! i) = Inr (labels ! i)"
    using getDisplayKeys_nth [OF r assms(4)] by blast
  then have "displayKey e (Some info) key = Inr (labels ! i)"
    using assms(1,5) by simp
  then show "\<exists>keyCode mappedKey.
               getKeyCodeFromKey e key = Returns keyCode \<and>
               getKeyForCode e keyCode = Returns mappedKey \<and>
               labels ! i = (if length mappedKey = 1 then toUpperCase e mappedKey else mappedKey)"
    unfolding displayKey_mapped [OF assms(6,2,3)]
    by (auto split: outcome.splits)
next
  assume "servicesTotal e"
  then show "\<exists>labels. getDisplayKeysForShortcut e s = Inr labels"
    by (rule getDisplayKeys_total)
qed

theorem layout_mapped_label_witness:
  "servicesTotal (sampleEnv (js ''MacIntel'') (Some \<lparr>layout = js ''azerty''\<rparr>)) \<and>
   js ''azerty'' \<noteq> [] \<and> js ''azerty'' \<noteq> js ''qwerty'' \<and>
   toLowerCase (sampleEnv (js ''MacIntel'') (Some \<lparr>layout = js ''azerty''\<rparr>)) (js ''a'')
     \<notin> set fixedOverrideNames \<and>
   getKeyCodeFromKey (sampleEnv (js ''MacIntel'') (Some \<lparr>layout = js ''azerty''\<rparr>)) (js ''a'')
     = Returns (js ''KeyA'') \<and>
   getKeyForCode (sampleEnv (js ''MacIntel'') (Some \<lparr>layout = js ''azerty''\<rparr>)) (js ''KeyA'')
     = Returns (js ''q'') \<and>
   getDisplayKeysForShortcut (sampleEnv (js ''MacIntel'') (Some \<lparr>layout = js ''azerty''\<rparr>))
     (sampleShortcut [js ''mod'', js ''a'', js ''click''])
     = Inr [glyph_command, js ''Q'', js ''click'']"
  using layout_mapped_label
    [where e = "sampleEnv (js ''MacIntel'') (Some \<lparr>layout = js ''azerty''\<rparr>)"
       and info = "\<lparr>layout = js ''azerty''\<rparr>" and i = 1
       and s = "sampleShortcut [js ''mod'', js ''a'', js ''click'']" and key = "js ''a''"]
  by (simp add: sampleEnv_total) (simp add: eval_defs fixedOverrideNames_def)

text \<open>
  Claim C4. For a key outside the fixed set, when the detected layout is absent or its
  identifier is \<open>qwerty\<close>, the call returns and the label is the key name itself,
  upper-cased when it is exactly one code unit long (\<open>a\<close> gives \<open>A\<close>, \<open>1\<close> stays \<open>1\<close>,
  \<open>click\<close> stays \<open>click\<close>); the code lookup and the layout mapper are not consulted: the
  result is the same whatever they are, also when they throw on every call.
\<close>

theorem default_layout_label:
  assumes "getDetectedLayout e = Returns d"
      and "d = None \<or> d = Some \<lparr>layout = js ''qwerty''\<rparr>"
      and "i < length (keys s)" and "key = keys s ! i"
      and "toLowerCase e key \<notin> set fixedOverrideNames"
  shows "(\<exists>labels. getDisplayKeysForShortcut e s = Inr labels \<and>
            labels ! i = (if length key = 1 then toUpperCase e key else key)) \<and>
         (\<forall>mapper batch lookup.
            getDisplayKeysForShortcut
              (e\<lparr>getKeyForCode := mapper, mapKeys := batch, getKeyCodeFromKey := lookup\<rparr>) s
            = getDisplayKeysForShortcut e s) \<and>
         displayKey e d (js ''a'') = Inr (js ''A'') \<and>
         displayKey e d (js ''1'') = Inr (js ''1'') \<and>
         displayKey e d (js ''click'') = Inr (js ''click'')"
proof -
  have dflt: "d = None \<or> d = Some \<lparr>layout = []\<rparr> \<or> d = Some \<lparr>layout = js ''qwerty''\<rparr>"
    using assms(2) by blast
  obtain labels where r: "getDisplayKeysForShortcut e s = Inr labels"
    using getDisplayKeys_default_returns [OF assms(1) dflt] by blast
  obtain d' where "getDetectedLayout e = Returns d'"
    and "displayKey e d' (keys s ! i) = Inr (labels ! i)"
    using getDisplayKeys_nth [OF r assms(3)] by blast
  then have "displayKey e d key = Inr (labels ! i)"
    using assms(1,4) by simp
  then have "labels ! i = (if length key = 1 then toUpperCase e key else key)"
    using displayKey_default [OF assms(5) dflt] by simp
  moreover have "displayKey e d (js ''a'') = Inr (js ''A'')"
    "displayKey e d (js ''1'') = Inr (js ''1'')"
    "displayKey e d (js ''click'') = Inr (js ''click'')"
    using assms(2)
    by (auto simp: displayKey_def Let_def toLowerCase_def toUpperCase_def is_ascii_def
        ascii_lower_def ascii_upper_def js_def)
  ultimately show ?thesis
    using r getDisplayKeys_default_services [OF assms(1) dflt] by blast
qed

theorem default_layout_label_witness:
  "getDetectedLayout (throwingEnv (js ''MacIntel'') (Some \<lparr>layout = js ''qwerty''\<rparr>))
     = Returns (Some \<lparr>layout = js ''qwerty''\<rparr>) \<and>
   toLowerCase (throwingEnv (js ''MacIntel'') (Some \<lparr>layout = js ''qwerty''\<rparr>)) (js ''click'')
     \<notin> set fixedOverrideNames \<and>
   getDisplayKeysForShortcut (throwingEnv (js ''MacIntel'') (Some \<lparr>layout = js ''qwerty''\<rparr>))
     (sampleShortcut [js ''alt'', js ''shift'', js ''click''])
     = Inr [glyph_option, glyph_shift, js ''click''] \<and>
   getDisplayKeysForShortcut (throwingEnv (js ''Win32'') None) (sampleShortcut [js ''mod'', js ''z''])
     = Inr [js ''Ctrl'', js ''Z'']"
  using default_layout_label
    [where e = "throwingEnv (js ''MacIntel'') (Some \<lparr>layout = js ''qwerty''\<rparr>)"
       and d = "Some \<lparr>layout = js ''qwerty''\<rparr>" and i = 2
       and s = "sampleShortcut [js ''alt'', js ''shift'', js ''click'']" and key = "js ''click''"]
  by (simp add: eval_defs fixedOverrideNames_def)

text \<open>
  Claim C6. The result of \<open>getDisplayKeysForShortcut\<close> has exactly as many labels as
  the shortcut has keys, and the label at each position is the one the per-key function
  computes from the key at that position, for every layout and platform; the call
  returns whenever the imported functions do.
\<close>

theorem display_keys_one_per_key:
  "(\<forall>labels. getDisplayKeysForShortcut e s = Inr labels \<longrightarrow>
      length labels = length (keys s) \<and>
      (\<exists>d. getDetectedLayout e = Returns d \<and>
         (\<forall>i<length (keys s). displayKey e d (keys s ! i) = Inr (labels ! i))))
   \<and> (servicesTotal e \<longrightarrow> (\<exists>labels. getDisplayKeysForShortcut e s = Inr labels))"
proof (intro conjI allI impI)
  fix labels
  assume r: "getDisplayKeysForShortcut e s = Inr labels"
  then obtain d where d: "getDetectedLayout e = Returns d"
    and m: "array_map (displayKey e d) (keys s) = Inr labels"
    using getDisplayKeys_Inr by blast
  show "length labels = length (keys s)"
    using m by (rule array_map_length)
  show "\<exists>d. getDetectedLayout e = Returns d \<and>
         (\<forall>i<length (keys s). displayKey e d (keys s ! i) = Inr (labels ! i))"
    using d array_map_nth [OF m] by blast
next
  assume "servicesTotal e"
  then show "\<exists>labels. getDisplayKeysForShortcut e s = Inr labels"
    by (rule getDisplayKeys_total)
qed

theorem display_keys_one_per_key_witness:
  "servicesTotal (sampleEnv (js ''Win32'') None) \<and>
   getDisplayKeysForShortcut (sampleEnv (js ''Win32'') None) (sampleShortcut [js ''mod'', js ''z''])
     = Inr [js ''Ctrl'', js ''Z''] \<and>
   length [js ''Ctrl'', js ''Z''] = length (keys (sampleShortcut [js ''mod'', js ''z'']))"
  using display_keys_one_per_key
    [of "sampleEnv (js ''Win32'') None" "sampleShortcut [js ''mod'', js ''z'']"]
  by (simp add: sampleEnv_total) (simp add: eval_defs)

section \<open>Properties of enhanceShortcutsWithMapping\<close>

text \<open>
  Claim C5. \<open>enhanceShortcutsWithMapping\<close> returns one enhanced record for each input
  record, in the same order; the record's \<open>displayKeys\<close> is the result of
  \<open>getDisplayKeysForShortcut\<close> on the input record, and its \<open>mappedKeys\<close> is the result
  of \<open>mapKeys\<close> on the codes that \<open>getKeyCodeFromKey\<close> gives for the record's keys.
  The call returns whenever the imported functions do.
\<close>

theorem enhance_one_record_per_shortcut:
  "(\<forall>enhanced. enhanceShortcutsWithMapping e shortcuts = Inr enhanced \<longrightarrow>
      length enhanced = length shortcuts \<and>
      (\<forall>i<length shortcuts.
         Shortcut.truncate (enhanced ! i) = shortcuts ! i \<and>
         (\<exists>labels codes mapped.
            getDisplayKeysForShortcut e (shortcuts ! i) = Inr labels \<and>
            displayKeys (enhanced ! i) = Some labels \<and>
            map (getKeyCodeFromKey e) (keys (shortcuts ! i)) = map Returns codes \<and>
            mapKeys e codes = Returns mapped \<and>
            mappedKeys (enhanced ! i) = Some mapped)))
   \<and> (servicesTotal e \<longrightarrow> (\<exists>enhanced. enhanceShortcutsWithMapping e shortcuts = Inr enhanced))"
  using enhance_length [of e shortcuts] enhance_nth [of e shortcuts]
    enhanceShortcuts_total [of e shortcuts]
  by blast

theorem enhance_one_record_per_shortcut_witness:
  "servicesTotal (sampleEnv (js ''Win32'') (Some \<lparr>layout = js ''azerty''\<rparr>)) \<and>
   enhanceShortcutsWithMapping (sampleEnv (js ''Win32'') (Some \<lparr>layout = js ''azerty''\<rparr>))
     [sampleShortcut [js ''mod'', js ''z''], sampleShortcut [js ''escape'']]
   = Inr [\<lparr>keys = [js ''mod'', js ''z''], action = js ''sample'', type = Combination,
           description = js ''Sample'', scope = js ''global'',
           preventDefault = Some True, ignore = None,
           mappedKeys = Some [js ''mod'', js ''w''],
           displayKeys = Some [js ''Ctrl'', js ''W'']\<rparr>,
          \<lparr>keys = [js ''escape''], action = js ''sample'', type = Combination,
           description = js ''Sample'', scope = js ''global'',
           preventDefault = Some True, ignore = None,
           mappedKeys = Some [js ''escape''],
           displayKeys = Some [js ''Esc'']\<rparr>] \<and>
   getDisplayKeysForShortcut (sampleEnv (js ''Win32'') (Some \<lparr>layout = js ''azerty''\<rparr>))
     (sampleShortcut [js ''mod'', js ''z'']) = Inr [js ''Ctrl'', js ''W''] \<and>
   map (getKeyCodeFromKey (sampleEnv (js ''Win32'') (Some \<lparr>layout = js ''azerty''\<rparr>)))
     [js ''mod'', js ''z''] = map Returns [js ''mod'', js ''KeyZ''] \<and>
   mapKeys (sampleEnv (js ''Win32'') (Some \<lparr>layout = js ''azerty''\<rparr>))
     [js ''mod'', js ''KeyZ''] = Returns [js ''mod'', js ''w'']"
proof -
  let ?e = "sampleEnv (js ''Win32'') (Some \<lparr>layout = js ''azerty''\<rparr>)"
  let ?ss = "[sampleShortcut [js ''mod'', js ''z''], sampleShortcut [js ''escape'']]"
  have r: "enhanceShortcutsWithMapping ?e ?ss
     = Inr [\<lparr>keys = [js ''mod'', js ''z''], action = js ''sample'', type = Combination,
           description = js ''Sample'', scope = js ''global'',
           preventDefault = Some True, ignore = None,
           mappedKeys = Some [js ''mod'', js ''w''],
           displayKeys = Some [js ''Ctrl'', js ''W'']\<rparr>,
          \<lparr>keys = [js ''escape''], action = js ''sample'', type = Combination,
           description = js ''Sample'', scope = js ''global'',
           preventDefault = Some True, ignore = None,
           mappedKeys = Some [js ''escape''],
           displayKeys = Some [js ''Esc'']\<rparr>]"
    by (simp add: enhance_defs eval_defs)
  have d: "getDisplayKeysForShortcut ?e (sampleShortcut [js ''mod'', js ''z''])
             = Inr [js ''Ctrl'', js ''W'']"
    and c: "map (getKeyCodeFromKey ?e) [js ''mod'', js ''z''] = map Returns [js ''mod'', js ''KeyZ'']"
    and m: "mapKeys ?e [js ''mod'', js ''KeyZ''] = Returns [js ''mod'', js ''w'']"
    by (simp_all add: eval_defs)
  show ?thesis
    using enhance_one_record_per_shortcut [of ?e ?ss] sampleEnv_total r d c m
    by blast
qed

text \<open>
  Claim C8. Every field of an input record (\<open>keys\<close>, \<open>action\<close>, \<open>type\<close>,
  \<open>description\<close>, \<open>scope\<close>, \<open>preventDefault\<close>, \<open>ignore\<close>) is unchanged in its enhanced
  record, which only adds \<open>displayKeys\<close> and \<open>mappedKeys\<close>; both are optional in the
  type but defined in every record that \<open>enhanceShortcutsWithMapping\<close> produces.
\<close>

theorem enhance_preserves_fields:
  assumes "enhanceShortcutsWithMapping e shortcuts = Inr enhanced" and "i < length shortcuts"
  shows "i < length enhanced \<and>
         keys (enhanced ! i) = keys (shortcuts ! i) \<and>
         action (enhanced ! i) = action (shortcuts ! i) \<and>
         type (enhanced ! i) = type (shortcuts ! i) \<and>
         description (enhanced ! i) = description (shortcuts ! i) \<and>
         scope (enhanced ! i) = scope (shortcuts ! i) \<and>
         preventDefault (enhanced ! i) = preventDefault (shortcuts ! i) \<and>
         ignore (enhanced ! i) = ignore (shortcuts ! i) \<and>
         Shortcut.truncate (enhanced ! i) = shortcuts ! i \<and>
         mappedKeys (enhanced ! i) \<noteq> None \<and>
         displayKeys (enhanced ! i) \<noteq> None"
proof -
  have m: "array_map (enhanceShortcut e) shortcuts = Inr enhanced"
    using assms(1) by (simp add: enhanceShortcutsWithMapping_def)
  have len: "length enhanced = length shortcuts"
    using m by (rule array_map_length)
  have "enhanceShortcut e (shortcuts ! i) = Inr (enhanced ! i)"
    using m assms(2) by (rule array_map_nth)
  then obtain dks mks where
    "enhanced ! i =
       \<lparr>keys = keys (shortcuts ! i), action = action (shortcuts ! i), type = type (shortcuts ! i),
        description = description (shortcuts ! i), scope = scope (shortcuts ! i),
        preventDefault = preventDefault (shortcuts ! i), ignore = ignore (shortcuts ! i),
        mappedKeys = Some mks, displayKeys = Some dks\<rparr>"
    using enhanceShortcut_Inr by blast
  then show ?thesis
    using len assms(2) by (simp add: Shortcut.truncate_def)
qed

theorem enhance_preserves_fields_witness:
  "enhanceShortcutsWithMapping (sampleEnv (js ''MacIntel'') None)
     [sampleShortcut [js ''alt'', js ''shift'', js ''click'']]
   = Inr [\<lparr>keys = [js ''alt'', js ''shift'', js ''click''], action = js ''sample'',
           type = Combination, description = js ''Sample'', scope = js ''global'',
           preventDefault = Some True, ignore = None,
           mappedKeys = Some [js ''alt'', js ''shift'', js ''click''],
           displayKeys = Some [glyph_option, glyph_shift, js ''click'']\<rparr>] \<and>
   (0::nat) < length [sampleShortcut [js ''alt'', js ''shift'', js ''click'']]"
proof -
  let ?e = "sampleEnv (js ''MacIntel'') None"
  let ?ss = "[sampleShortcut [js ''alt'', js ''shift'', js ''click'']]"
  have r: "enhanceShortcutsWithMapping ?e ?ss
     = Inr [\<lparr>keys = [js ''alt'', js ''shift'', js ''click''], action = js ''sample'',
           type = Combination, description = js ''Sample'', scope = js ''global'',
           preventDefault = Some True, ignore = None,
           mappedKeys = Some [js ''alt'', js ''shift'', js ''click''],
           displayKeys = Some [glyph_option, glyph_shift, js ''click'']\<rparr>]"
    by (simp add: enhance_defs eval_defs)
  have i: "(0::nat) < length ?ss" by simp
  show ?thesis
    using enhance_preserves_fields [OF r i] r i by blast
qed

text \<open>
  Claim C9. When none of the imported functions throws, \<open>getDisplayKeysForShortcut\<close>
  and \<open>enhanceShortcutsWithMapping\<close> return a result for every shortcut record. When
  the layout is absent or \<open>qwerty\<close>, \<open>getDisplayKeysForShortcut\<close> returns even if the
  code lookup and the mapper throw, and a key outside the fixed set is passed through,
  upper-cased when it is one code unit long and verbatim otherwise.
\<close>

theorem total_over_every_record:
  "(servicesTotal e \<longrightarrow>
      (\<exists>labels. getDisplayKeysForShortcut e s = Inr labels) \<and>
      (\<exists>enhanced. enhanceShortcutsWithMapping e shortcuts = Inr enhanced))
   \<and> (getDetectedLayout e = Returns None \<or>
        getDetectedLayout e = Returns (Some \<lparr>layout = js ''qwerty''\<rparr>) \<longrightarrow>
      (\<exists>labels. getDisplayKeysForShortcut e s = Inr labels \<and>
         (\<forall>i<length (keys s). toLowerCase e (keys s ! i) \<notin> set fixedOverrideNames \<longrightarrow>
            labels ! i =
              (if length (keys s ! i) = 1 then toUpperCase e (keys s ! i) else keys s ! i))))"
proof (intro conjI impI)
  assume "servicesTotal e"
  then show "\<exists>labels. getDisplayKeysForShortcut e s = Inr labels"
    and "\<exists>enhanced. enhanceShortcutsWithMapping e shortcuts = Inr enhanced"
    by (rule getDisplayKeys_total, rule enhanceShortcuts_total)
next
  assume "getDetectedLayout e = Returns None \<or>
        getDetectedLayout e = Returns (Some \<lparr>layout = js ''qwerty''\<rparr>)"
  then obtain d where d: "getDetectedLayout e = Returns d"
    and dflt: "d = None \<or> d = Some \<lparr>layout = []\<rparr> \<or> d = Some \<lparr>layout = js ''qwerty''\<rparr>"
    by blast
  obtain labels where r: "getDisplayKeysForShortcut e s = Inr labels"
    using getDisplayKeys_default_returns [OF d dflt] by blast
  have "labels ! i = (if length (keys s ! i) = 1 then toUpperCase e (keys s ! i) else keys s ! i)"
    if "i < length (keys s)" and "toLowerCase e (keys s ! i) \<notin> set fixedOverrideNames" for i
    using getDisplayKeys_nth [OF r that(1)] d displayKey_default [OF that(2) dflt] by auto
  then show "\<exists>labels. getDisplayKeysForShortcut e s = Inr labels \<and>
         (\<forall>i<length (keys s). toLowerCase e (keys s ! i) \<notin> set fixedOverrideNames \<longrightarrow>
            labels ! i =
              (if length (keys s ! i) = 1 then toUpperCase e (keys s ! i) else keys s ! i))"
    using r by blast
qed

theorem total_over_every_record_witness:
  "servicesTotal (sampleEnv (js ''Win32'') (Some \<lparr>layout = js ''azerty''\<rparr>)) \<and>
   getDisplayKeysForShortcut (sampleEnv (js ''Win32'') (Some \<lparr>layout = js ''azerty''\<rparr>))
     (sampleShortcut [js ''?'', js ''shift'']) = Inr [js ''?'', glyph_shift] \<and>
   getDetectedLayout (throwingEnv (js ''Win32'') None) = Returns None \<and>
   getDisplayKeysForShortcut (throwingEnv (js ''Win32'') None)
     (sampleShortcut [js ''g'', js ''click'']) = Inr [js ''G'', js ''click''] \<and>
   getDisplayKeysForShortcut (throwingEnv (js ''Win32'') (Some \<lparr>layout = js ''azerty''\<rparr>))
     (sampleShortcut [js ''g'', js ''click'']) = Inl KeyCodeFromKeyThrew"
  using total_over_every_record
    [of "sampleEnv (js ''Win32'') (Some \<lparr>layout = js ''azerty''\<rparr>)"
        "sampleShortcut [js ''?'', js ''shift'']" "[]"]
    total_over_every_record
    [of "throwingEnv (js ''Win32'') None" "sampleShortcut [js ''g'', js ''click'']" "[]"]
  by (simp add: sampleEnv_total) (simp add: eval_defs)

section \<open>Properties of the registry\<close>

text \<open>
  Claim C7. \<open>keyboardShortcuts\<close> is the concatenation of the groups navigation,
  thread-display, global, mail-list and compose, in this order; its length is the sum
  of their lengths (34), and each group is a contiguous block of it, in its own order.
\<close>

theorem registry_is_concatenation:
  "keyboardShortcuts =
     navigation @ threadDisplayShortcuts @ globalShortcuts @ mailListShortcuts @ composeShortcuts \<and>
   length keyboardShortcuts =
     length navigation + length threadDisplayShortcuts + length globalShortcuts +
     length mailListShortcuts + length composeShortcuts \<and>
   length keyboardShortcuts = 34 \<and>
   take 7 keyboardShortcuts = navigation \<and>
   take 4 (drop 7 keyboardShortcuts) = threadDisplayShortcuts \<and>
   take 5 (drop 11 keyboardShortcuts) = globalShortcuts \<and>
   take 16 (drop 16 keyboardShortcuts) = mailListShortcuts \<and>
   drop 32 keyboardShortcuts = composeShortcuts"
  by (simp add: keyboardShortcuts_def group_lengths)

text \<open>
  Claim C10. Every record of \<open>keyboardShortcuts\<close> has at least one key.
\<close>

theorem registry_keys_nonempty: "\<forall>s\<in>set keyboardShortcuts. keys s \<noteq> []"
  by (simp add: registry_defs)

theorem registry_keys_nonempty_witness:
  "composeShortcuts ! 0 \<in> set keyboardShortcuts \<and>
   keys (composeShortcuts ! 0) = [js ''mod'', js ''Enter''] \<and>
   keys (composeShortcuts ! 0) \<noteq> []"
  using registry_keys_nonempty by (simp add: registry_defs)

end
